theory Spec2Isabelle
  imports Main
begin

section \<open>JavaScript values\<close>

text \<open>
  A property read from a value of type \<^verbatim>\<open>any\<close> can hold any JavaScript value.
  Numbers are integers here (only their truthiness is used: \<open>0\<close> is falsy), and
  \<^term>\<open>JObject\<close> stands for any object, array or function, all of them truthy.
\<close>

datatype js_value =
    JUndefined
  | JNull
  | JBool bool
  | JNumber int
  | JString string
  | JObject

fun js_truthy :: "js_value \<Rightarrow> bool" where
  "js_truthy JUndefined = False"
| "js_truthy JNull = False"
| "js_truthy (JBool b) = b"
| "js_truthy (JNumber n) = (n \<noteq> 0)"
| "js_truthy (JString s) = (s \<noteq> [])"
| "js_truthy JObject = True"

text \<open>\<^verbatim>\<open>x || d\<close> on arbitrary values.\<close>

definition js_or :: "js_value \<Rightarrow> js_value \<Rightarrow> js_value" where
  "js_or x d = (if js_truthy x then x else d)"



section \<open>Data model (types/notification.ts)\<close>

text \<open>
  JavaScript strings are modelled as \<^typ>\<open>string\<close>. An optional property
  (\<^verbatim>\<open>field?: T\<close>) is an \<^typ>\<open>'a option\<close>, \<^term>\<open>None\<close> standing for
  \<^verbatim>\<open>undefined\<close>. Field names that several interfaces share carry a prefix, since
  record fields are global constants. \<^verbatim>\<open>NotificationError\<close> declares \<^verbatim>\<open>code\<close> and
  \<^verbatim>\<open>message\<close> as strings, but the classifier fills them from a value of type
  \<^verbatim>\<open>any\<close>, so at run time they hold whatever value it found there.
\<close>

datatype NotificationPriority = High | Normal

record NotificationPayload =
  title :: string
  body :: string
  data :: "(string \<times> string) list option"
  imageUrl :: "string option"
  sound :: "string option"
  badge :: "int option"
  clickAction :: "string option"
  priority :: "NotificationPriority option"

record NotificationError =
  code :: js_value
  message :: js_value
  token :: "string option"

record SendResult =
  success :: bool
  messageId :: "string option"
  error :: "NotificationError option"

record BatchResult =
  successCount :: int
  failureCount :: int
  results :: "SendResult list"

datatype OrderType = OrderPlaced | OrderDelivered | OrderCanceled

record OrderNotification =
  on_type :: OrderType
  orderId :: string
  orderNumber :: "string option"

section \<open>JavaScript truthiness of optional strings\<close>

text \<open>
  \<^verbatim>\<open>x || d\<close> on an optional string yields \<^verbatim>\<open>d\<close> when \<^verbatim>\<open>x\<close> is
  \<^verbatim>\<open>undefined\<close> or the empty string, and \<^verbatim>\<open>x\<close> otherwise.
  \<^verbatim>\<open>...(x && { x })\<close> adds the property only when \<^verbatim>\<open>x\<close> is a non-empty
  string: spreading \<^verbatim>\<open>undefined\<close> or \<^verbatim>\<open>''\<close> adds nothing.
\<close>

fun truthy :: "string option \<Rightarrow> bool" where
  "truthy None = False"
| "truthy (Some s) = (s \<noteq> [])"

fun or_else :: "string option \<Rightarrow> string \<Rightarrow> string" where
  "or_else None d = d"
| "or_else (Some s) d = (if s = [] then d else s)"

definition spread_if :: "string option \<Rightarrow> string option" where
  "spread_if x = (if truthy x then x else None)"

section \<open>Notification formatters (utils/notification-formatter.ts)\<close>

fun type_string :: "OrderType \<Rightarrow> string" where
  "type_string OrderPlaced = ''order.placed''"
| "type_string OrderDelivered = ''order.delivered''"
| "type_string OrderCanceled = ''order.canceled''"

text \<open>The titles start with an emoji, given here by its UTF-8 bytes.\<close>

fun titles :: "OrderType \<Rightarrow> string" where
  "titles OrderPlaced = [CHR 0xE2, CHR 0x9C, CHR 0x85] @ '' Order Confirmed''"
| "titles OrderDelivered = [CHR 0xF0, CHR 0x9F, CHR 0x8E, CHR 0x89] @ '' Order Delivered''"
| "titles OrderCanceled = [CHR 0xE2, CHR 0x9D, CHR 0x8C] @ '' Order Canceled''"

fun bodies :: "string \<Rightarrow> string option \<Rightarrow> OrderType \<Rightarrow> string" where
  "bodies oid onum OrderPlaced =
     ''Your order '' @ or_else onum (''#'' @ oid) @ '' has been confirmed!''"
| "bodies oid onum OrderDelivered =
     ''Your order '' @ or_else onum (''#'' @ oid) @ '' has been delivered!''"
| "bodies oid onum OrderCanceled =
     ''Your order '' @ or_else onum (''#'' @ oid) @ '' has been canceled.''"

definition formatOrderNotification :: "OrderNotification \<Rightarrow> NotificationPayload" where
  "formatOrderNotification d =
     \<lparr> title = titles (on_type d),
       body = bodies (orderId d) (orderNumber d) (on_type d),
       data = Some ([(''type'', type_string (on_type d)), (''orderId'', orderId d)]
                    @ (case spread_if (orderNumber d) of
                         None \<Rightarrow> []
                       | Some n \<Rightarrow> [(''orderNumber'', n)])),
       imageUrl = None,
       sound = None,
       badge = None,
       clickAction = Some (''/orders/'' @ orderId d),
       priority = Some (if on_type d = OrderPlaced then High else Normal) \<rparr>"

section \<open>Provider types (firebase-admin messaging)\<close>

text \<open>
  The provider's message shape, restricted to the properties the service writes. A value
  caught by \<^verbatim>\<open>catch (error)\<close> or found in \<^verbatim>\<open>resp.error\<close> is of type
  \<^verbatim>\<open>any\<close>: it is either nullish, or a value whose \<^verbatim>\<open>code\<close> and \<^verbatim>\<open>message\<close>
  properties hold arbitrary values, \<^term>\<open>JUndefined\<close> when the property is missing.
  \<^verbatim>\<open>error?.code\<close> is \<^verbatim>\<open>undefined\<close> for a nullish error.
\<close>

datatype js_error = JsNullish | JsError js_value js_value

fun error_code :: "js_error \<Rightarrow> js_value" where
  "error_code JsNullish = JUndefined"
| "error_code (JsError c m) = c"

fun error_message :: "js_error \<Rightarrow> js_value" where
  "error_message JsNullish = JUndefined"
| "error_message (JsError c m) = m"

datatype Target = Token string | Topic string

record Notification =
  n_title :: string
  n_body :: string
  n_imageUrl :: "string option"

record AndroidNotification =
  an_sound :: string
  an_clickAction :: "string option"

record AndroidConfig =
  a_priority :: NotificationPriority
  a_notification :: AndroidNotification

record Aps =
  aps_badge :: "int option"
  aps_sound :: string

record FcmOptions =
  fo_imageUrl :: "string option"

record ApnsConfig =
  apns_aps :: Aps
  apns_fcmOptions :: "FcmOptions option"

record Message =
  m_target :: Target
  m_notification :: Notification
  m_data :: "(string \<times> string) list option"
  m_android :: "AndroidConfig option"
  m_apns :: "ApnsConfig option"

record SendResponse =
  resp_success :: bool
  resp_messageId :: "string option"
  resp_error :: js_error

section \<open>Error classifier and message builders (services/fcm-service.ts)\<close>

definition parseError :: "js_error \<Rightarrow> string option \<Rightarrow> NotificationError" where
  "parseError err tok =
     \<lparr> code = js_or (error_code err) (JString ''unknown''),
       message = js_or (error_message err) (JString ''Unknown error occurred''),
       token = spread_if tok \<rparr>"

definition buildMessage :: "string \<Rightarrow> NotificationPayload \<Rightarrow> Message" where
  "buildMessage tok payload =
     \<lparr> m_target = Token tok,
       m_notification =
         \<lparr> n_title = title payload, n_body = body payload,
           n_imageUrl = spread_if (imageUrl payload) \<rparr>,
       m_data = data payload,
       m_android = Some
         \<lparr> a_priority = (if priority payload = Some High then High else Normal),
           a_notification =
             \<lparr> an_sound = or_else (sound payload) ''default'',
               an_clickAction = clickAction payload \<rparr> \<rparr>,
       m_apns = Some
         \<lparr> apns_aps =
             \<lparr> aps_badge = badge payload,
               aps_sound = or_else (sound payload) ''default'' \<rparr>,
           apns_fcmOptions = Some \<lparr> fo_imageUrl = spread_if (imageUrl payload) \<rparr> \<rparr> \<rparr>"

definition buildTopicMessage :: "string \<Rightarrow> NotificationPayload \<Rightarrow> Message" where
  "buildTopicMessage topic payload =
     \<lparr> m_target = Topic topic,
       m_notification =
         \<lparr> n_title = title payload, n_body = body payload,
           n_imageUrl = spread_if (imageUrl payload) \<rparr>,
       m_data = data payload,
       m_android = Some
         \<lparr> a_priority = (if priority payload = Some High then High else Normal),
           a_notification =
             \<lparr> an_sound = or_else (sound payload) ''default'',
               an_clickAction = clickAction payload \<rparr> \<rparr>,
       m_apns = Some
         \<lparr> apns_aps =
             \<lparr> aps_badge = badge payload,
               aps_sound = or_else (sound payload) ''default'' \<rparr>,
           apns_fcmOptions = None \<rparr> \<rparr>"

section \<open>The dispatch collaborator\<close>

text \<open>
  \<^verbatim>\<open>admin.messaging.Messaging\<close> is external: \<^verbatim>\<open>send(message, dryRun)\<close>
  resolves to a message id or rejects with an error, \<^verbatim>\<open>sendEach(messages, dryRun)\<close>
  resolves to a batch response (of which the service reads \<^verbatim>\<open>responses\<close> only) or
  rejects. Both are arbitrary functions of a hidden provider state \<open>'s\<close>; a rejection
  is \<^term>\<open>Inl\<close>. The world also keeps the log of the calls made to the collaborator,
  each with its arguments and its outcome, so that statements can refer to them.
\<close>

datatype Call =
    SendCall Message bool "js_error + string"
  | SendEachCall "Message list" bool "js_error + SendResponse list"

record 's Messaging =
  send :: "Message \<Rightarrow> bool \<Rightarrow> 's \<Rightarrow> (js_error + string) \<times> 's"
  sendEach :: "Message list \<Rightarrow> bool \<Rightarrow> 's \<Rightarrow> (js_error + SendResponse list) \<times> 's"

record 's World =
  provider :: 's
  calls :: "Call list"

definition invoke_send ::
  "'s Messaging \<Rightarrow> Message \<Rightarrow> bool \<Rightarrow> 's World \<Rightarrow> (js_error + string) \<times> 's World" where
  "invoke_send m msg dry w =
     (let r = send m msg dry (provider w)
      in (fst r, \<lparr> provider = snd r, calls = calls w @ [SendCall msg dry (fst r)] \<rparr>))"

definition invoke_sendEach ::
  "'s Messaging \<Rightarrow> Message list \<Rightarrow> bool \<Rightarrow> 's World
     \<Rightarrow> (js_error + SendResponse list) \<times> 's World" where
  "invoke_sendEach m msgs dry w =
     (let r = sendEach m msgs dry (provider w)
      in (fst r, \<lparr> provider = snd r, calls = calls w @ [SendEachCall msgs dry (fst r)] \<rparr>))"

section \<open>The dispatch orchestrator (class FCMService)\<close>

record 's FCMServiceOptions =
  firebaseApp_messaging :: "'s Messaging"
  opt_dryRun :: "bool option"

record 's FCMService =
  messaging :: "'s Messaging"
  dryRun :: bool

definition new_FCMService :: "'s FCMServiceOptions \<Rightarrow> 's FCMService" where
  "new_FCMService options =
     \<lparr> messaging = firebaseApp_messaging options,
       dryRun = (case opt_dryRun options of None \<Rightarrow> False | Some b \<Rightarrow> b) \<rparr>"

text \<open>
  The two object literals the service returns: \<^verbatim>\<open>{ success: true, messageId }\<close> and
  \<^verbatim>\<open>{ success: false, error }\<close>.
\<close>

definition succeeded :: "string option \<Rightarrow> SendResult" where
  "succeeded mid = \<lparr> success = True, messageId = mid, error = None \<rparr>"

definition failed :: "NotificationError \<Rightarrow> SendResult" where
  "failed e = \<lparr> success = False, messageId = None, error = Some e \<rparr>"

definition sendToDevice ::
  "'s FCMService \<Rightarrow> string \<Rightarrow> NotificationPayload \<Rightarrow> 's World \<Rightarrow> SendResult \<times> 's World" where
  "sendToDevice svc tok payload w =
     (case invoke_send (messaging svc) (buildMessage tok payload) (dryRun svc) w of
        (Inr mid, w') \<Rightarrow> (succeeded (Some mid), w')
      | (Inl err, w') \<Rightarrow> (failed (parseError err (Some tok)), w'))"

definition sendToTopic ::
  "'s FCMService \<Rightarrow> string \<Rightarrow> NotificationPayload \<Rightarrow> 's World \<Rightarrow> SendResult \<times> 's World" where
  "sendToTopic svc topic payload w =
     (case invoke_send (messaging svc) (buildTopicMessage topic payload) (dryRun svc) w of
        (Inr mid, w') \<Rightarrow> (succeeded (Some mid), w')
      | (Inl err, w') \<Rightarrow> (failed (parseError err None), w'))"

definition validationMessage :: "string \<Rightarrow> Message" where
  "validationMessage tok =
     \<lparr> m_target = Token tok,
       m_notification = \<lparr> n_title = ''Test'', n_body = ''Test'', n_imageUrl = None \<rparr>,
       m_data = None, m_android = None, m_apns = None \<rparr>"

definition invalidTokenCodes :: "string list" where
  "invalidTokenCodes =
     [''messaging/invalid-registration-token'',
      ''messaging/registration-token-not-registered'']"

definition validateToken :: "'s FCMService \<Rightarrow> string \<Rightarrow> 's World \<Rightarrow> bool \<times> 's World" where
  "validateToken svc tok w =
     (case invoke_send (messaging svc) (validationMessage tok) True w of
        (Inr mid, w') \<Rightarrow> (True, w')
      | (Inl err, w') \<Rightarrow> (\<not> (error_code err \<in> JString ` set invalidTokenCodes), w'))"

text \<open>\<^verbatim>\<open>tokens[index]\<close> is \<^verbatim>\<open>undefined\<close> when the index is out of range.\<close>

definition at_index :: "'a list \<Rightarrow> nat \<Rightarrow> 'a option" where
  "at_index xs i = (if i < length xs then Some (xs ! i) else None)"

text \<open>
  The callback of \<^verbatim>\<open>response.responses.map((resp, index) => ...)\<close>, applied to the
  pair of an index and the response at that index.
\<close>

definition fromResponse :: "string list \<Rightarrow> nat \<times> SendResponse \<Rightarrow> SendResult" where
  "fromResponse tokens ir =
     (if resp_success (snd ir) then succeeded (resp_messageId (snd ir))
      else failed (parseError (resp_error (snd ir)) (at_index tokens (fst ir))))"

definition sendBatch ::
  "'s FCMService \<Rightarrow> string list \<Rightarrow> NotificationPayload \<Rightarrow> 's World
     \<Rightarrow> SendResult list \<times> 's World" where
  "sendBatch svc tokens payload w =
     (let messages = map (\<lambda>tok. buildMessage tok payload) tokens
      in case invoke_sendEach (messaging svc) messages (dryRun svc) w of
           (Inr responses, w') \<Rightarrow> (map (fromResponse tokens) (enumerate 0 responses), w')
         | (Inl err, w') \<Rightarrow> (map (\<lambda>tok. failed (parseError err (Some tok))) tokens, w'))"

definition batchSize :: nat where
  "batchSize = 500"

text \<open>\<^verbatim>\<open>tokens.slice(i, j)\<close> for \<open>0 \<le> i \<le> j\<close>; an end past the array is cut off.\<close>

definition slice :: "'a list \<Rightarrow> nat \<Rightarrow> nat \<Rightarrow> 'a list" where
  "slice xs i j = take (j - i) (drop i xs)"

text \<open>The \<^verbatim>\<open>for\<close> loop of \<^verbatim>\<open>sendToMultipleDevices\<close>, from index \<open>i\<close> on.\<close>

function sendLoop ::
  "'s FCMService \<Rightarrow> string list \<Rightarrow> NotificationPayload \<Rightarrow> nat \<Rightarrow> SendResult list \<Rightarrow> 's World
     \<Rightarrow> SendResult list \<times> 's World" where
  "sendLoop svc tokens payload i res w =
     (if i < length tokens then
        (let batch = slice tokens i (i + batchSize);
             r = sendBatch svc batch payload w
         in sendLoop svc tokens payload (i + batchSize) (res @ fst r) (snd r))
      else (res, w))"
  by pat_completeness auto
termination
  by (relation "measure (\<lambda>(svc, tokens, payload, i, res, w). length tokens - i)")
     (auto simp: batchSize_def)

declare sendLoop.simps [simp del]

definition sendToMultipleDevices ::
  "'s FCMService \<Rightarrow> string list \<Rightarrow> NotificationPayload \<Rightarrow> 's World
     \<Rightarrow> BatchResult \<times> 's World" where
  "sendToMultipleDevices svc tokens payload w =
     (if length tokens = 0 then
        (\<lparr> successCount = 0, failureCount = 0, results = [] \<rparr>, w)
      else
        (let r = sendLoop svc tokens payload 0 [] w;
             sc = int (length (filter success (fst r)));
             fc = int (length (fst r)) - sc
         in (\<lparr> successCount = sc, failureCount = fc, results = fst r \<rparr>, snd r)))"

section \<open>Vocabulary of the statements\<close>

text \<open>
  The chunking as the specification words it: the list cut into consecutive pieces of at
  most \<open>n\<close> elements. The loop of \<^const>\<open>sendToMultipleDevices\<close> is compared
  with it below.
\<close>

function consecutive_chunks :: "nat \<Rightarrow> 'a list \<Rightarrow> 'a list list" where
  "consecutive_chunks n xs =
     (if n = 0 \<or> xs = [] then [] else take n xs # consecutive_chunks n (drop n xs))"
  by pat_completeness auto
termination
  by (relation "measure (\<lambda>(n, xs). length xs)") auto

declare consecutive_chunks.simps [simp del]

text \<open>One \<^const>\<open>sendBatch\<close> per chunk, in order; the per-chunk results are kept apart.\<close>

fun dispatch_chunks ::
  "'s FCMService \<Rightarrow> NotificationPayload \<Rightarrow> string list list \<Rightarrow> 's World
     \<Rightarrow> SendResult list list \<times> 's World" where
  "dispatch_chunks svc payload [] w = ([], w)"
| "dispatch_chunks svc payload (c # cs) w =
     (let r = sendBatch svc c payload w;
          r' = dispatch_chunks svc payload cs (snd r)
      in (fst r # fst r', snd r'))"

text \<open>
  What \<^const>\<open>sendBatch\<close> returns for a chunk, given the outcome of its
  \<^verbatim>\<open>sendEach\<close> call, and the log entry of that call.
\<close>

definition batchResults :: "string list \<Rightarrow> js_error + SendResponse list \<Rightarrow> SendResult list" where
  "batchResults tokens out =
     (case out of
        Inr responses \<Rightarrow> map (fromResponse tokens) (enumerate 0 responses)
      | Inl err \<Rightarrow> map (\<lambda>tok. failed (parseError err (Some tok))) tokens)"

definition chunkCall ::
  "'s FCMService \<Rightarrow> NotificationPayload \<Rightarrow> string list \<Rightarrow> js_error + SendResponse list
     \<Rightarrow> Call" where
  "chunkCall svc payload c out =
     SendEachCall (map (\<lambda>tok. buildMessage tok payload) c) (dryRun svc) out"

text \<open>
  The result expected at position \<open>i\<close> of the merged sequence, when \<open>outs\<close> are
  the outcomes of the chunk calls in order: it is made from the token \<open>L ! i\<close> and from
  the outcome of the call that carried this token, at the token's place in that call.
\<close>

definition positionResult ::
  "string list \<Rightarrow> (js_error + SendResponse list) list \<Rightarrow> nat \<Rightarrow> SendResult" where
  "positionResult L outs i =
     (case outs ! (i div batchSize) of
        Inl err \<Rightarrow> failed (parseError err (Some (L ! i)))
      | Inr responses \<Rightarrow>
          (let resp = responses ! (i mod batchSize)
           in if resp_success resp then succeeded (resp_messageId resp)
              else failed (parseError (resp_error resp) (Some (L ! i)))))"

text \<open>
  The contract of the collaborator's \<^verbatim>\<open>sendEach\<close>, as the provider documents it and
  the specification's external interfaces repeat it: a call that resolves gives one
  response per message (\<open>sendEach_aligned\<close>), and a response that reports success
  carries a message id (\<open>sendEach_wellformed\<close>).
\<close>

definition aligned_outcome :: "'a list \<Rightarrow> js_error + SendResponse list \<Rightarrow> bool" where
  "aligned_outcome c out =
     (case out of Inl err \<Rightarrow> True | Inr responses \<Rightarrow> length responses = length c)"

definition sendEach_aligned :: "'s Messaging \<Rightarrow> bool" where
  "sendEach_aligned m =
     (\<forall>msgs dry s. aligned_outcome msgs (fst (sendEach m msgs dry s)))"

definition wellformed_outcome :: "js_error + SendResponse list \<Rightarrow> bool" where
  "wellformed_outcome out =
     (case out of
        Inl err \<Rightarrow> True
      | Inr responses \<Rightarrow>
          list_all (\<lambda>r. resp_success r \<longrightarrow> resp_messageId r \<noteq> None) responses)"

definition sendEach_wellformed :: "'s Messaging \<Rightarrow> bool" where
  "sendEach_wellformed m =
     (\<forall>msgs dry s. wellformed_outcome (fst (sendEach m msgs dry s)))"

text \<open>An outcome that the service's collaborator gave for the messages of a chunk.\<close>

definition produced ::
  "'s FCMService \<Rightarrow> NotificationPayload \<Rightarrow> string list \<Rightarrow> js_error + SendResponse list
     \<Rightarrow> bool" where
  "produced svc payload c out =
     (\<exists>s. out = fst (sendEach (messaging svc) (map (\<lambda>tok. buildMessage tok payload) c)
                         (dryRun svc) s))"

text \<open>The invariant of \<^verbatim>\<open>SendResult\<close>: a message id iff success, an error iff failure.\<close>

definition exactly_one :: "SendResult \<Rightarrow> bool" where
  "exactly_one r =
     ((messageId r \<noteq> None) = success r \<and> (error r \<noteq> None) = (\<not> success r))"

section \<open>A test double for the collaborator\<close>

text \<open>
  A collaborator whose provider state counts the calls made so far. Its first call is
  rejected with a transport error; every later call delivers each message.
\<close>

definition example_payload :: NotificationPayload where
  "example_payload =
     \<lparr> title = ''Hello'', body = ''World'', data = None, imageUrl = None, sound = None,
       badge = None, clickAction = None, priority = None \<rparr>"

definition delivered :: SendResponse where
  "delivered =
     \<lparr> resp_success = True, resp_messageId = Some ''msg-1'', resp_error = JsNullish \<rparr>"

definition transport_error :: js_error where
  "transport_error =
     JsError (JString ''messaging/internal-error'') (JString ''socket hang up'')"

definition flaky :: "nat Messaging" where
  "flaky =
     \<lparr> send = (\<lambda>msg dry n. (if n = 0 then Inl transport_error else Inr ''msg-1'', Suc n)),
       sendEach = (\<lambda>msgs dry n.
         (if n = 0 then Inl transport_error else Inr (map (\<lambda>m. delivered) msgs), Suc n)) \<rparr>"

definition flaky_service :: "nat FCMService" where
  "flaky_service = new_FCMService \<lparr> firebaseApp_messaging = flaky, opt_dryRun = None \<rparr>"

definition fresh :: "nat World" where
  "fresh = \<lparr> provider = 0, calls = [] \<rparr>"

section \<open>Chunking lemmas\<close>

lemma chunks_Nil: "consecutive_chunks n [] = []"
  by (simp add: consecutive_chunks.simps)

lemma chunks_step:
  "0 < n \<Longrightarrow> xs \<noteq> [] \<Longrightarrow>
     consecutive_chunks n xs = take n xs # consecutive_chunks n (drop n xs)"
  by (subst consecutive_chunks.simps) simp

lemma concat_chunks: "0 < n \<Longrightarrow> concat (consecutive_chunks n xs) = xs"
proof (induction n xs rule: consecutive_chunks.induct)
  case (1 n xs)
  show ?case
  proof (cases "xs = []")
    case True
    then show ?thesis by (simp add: chunks_Nil)
  next
    case False
    with 1 show ?thesis by (simp add: chunks_step)
  qed
qed

lemma chunk_length_le: "c \<in> set (consecutive_chunks n xs) \<Longrightarrow> length c \<le> n \<and> c \<noteq> []"
proof (induction n xs rule: consecutive_chunks.induct)
  case (1 n xs)
  show ?case
  proof (cases "n = 0 \<or> xs = []")
    case True
    with 1(2) show ?thesis by (simp add: consecutive_chunks.simps)
  next
    case False
    with 1 show ?thesis by (auto simp: chunks_step)
  qed
qed

lemma length_chunks:
  "0 < n \<Longrightarrow> length (consecutive_chunks n xs) = (length xs + n - 1) div n"
proof (induction n xs rule: consecutive_chunks.induct)
  case (1 n xs)
  show ?case
  proof (cases "xs = []")
    case True
    with 1(2) show ?thesis by (simp add: chunks_Nil)
  next
    case False
    then have pos: "0 < length xs" by simp
    have step: "length (consecutive_chunks n xs) = Suc ((length xs - n + n - 1) div n)"
      using 1 False by (simp add: chunks_step)
    from pos have eq: "length xs + n - 1 = (length xs - 1) + n" by arith
    have whole: "(length xs + n - 1) div n = Suc ((length xs - 1) div n)"
      unfolding eq using 1(2) by (simp add: div_add_self2)
    have "(length xs - n + n - 1) div n = (length xs - 1) div n"
    proof (cases "n \<le> length xs")
      case True
      then show ?thesis by simp
    next
      case False
      then have "length xs - n + n - 1 < n" and "length xs - 1 < n"
        using 1(2) by simp_all
      then show ?thesis by simp
    qed
    with step whole show ?thesis by simp
  qed
qed

lemma concat_nth_shape:
  "0 < n \<Longrightarrow> list_all2 (\<lambda>y c. length y = length c) yss (consecutive_chunks n xs) \<Longrightarrow>
     i < length xs \<Longrightarrow>
     i div n < length yss \<and> i mod n < length (yss ! (i div n))
       \<and> concat yss ! i = yss ! (i div n) ! (i mod n)"
proof (induction n xs arbitrary: yss i rule: consecutive_chunks.induct)
  case (1 n xs)
  from 1(4) have ne: "xs \<noteq> []" by auto
  with 1(2) have st: "consecutive_chunks n xs = take n xs # consecutive_chunks n (drop n xs)"
    by (simp add: chunks_step)
  with 1(3) obtain y ys where yss: "yss = y # ys" and ly: "length y = min (length xs) n"
    and rest: "list_all2 (\<lambda>y c. length y = length c) ys (consecutive_chunks n (drop n xs))"
    by (auto simp: list_all2_Cons2)
  show ?case
  proof (cases "i < n")
    case True
    with 1(4) ly have "i < length y" by simp
    with True yss show ?thesis by (simp add: nth_append)
  next
    case False
    with 1(4) have nle: "n \<le> length xs" by simp
    with ly have ly': "length y = n" by simp
    from False 1(4) have i': "i - n < length (drop n xs)" by simp
    from 1(1)[OF _ 1(2) rest i'] 1(2) ne
    have ih: "(i - n) div n < length ys \<and> (i - n) mod n < length (ys ! ((i - n) div n))
       \<and> concat ys ! (i - n) = ys ! ((i - n) div n) ! ((i - n) mod n)"
      by simp
    from False 1(2) have d: "i div n = Suc ((i - n) div n)"
      by (simp add: le_div_geq)
    from False 1(2) have m: "i mod n = (i - n) mod n"
      by (simp add: le_mod_geq)
    from ih d m yss ly' False show ?thesis
      by (simp add: nth_append)
  qed
qed

section \<open>The loop as a run over the chunks\<close>

lemma batchSize_pos: "0 < batchSize"
  by (simp add: batchSize_def)

lemma aligned_outcome_map:
  "aligned_outcome (map f c) out = aligned_outcome c out"
  by (cases out) (simp_all add: aligned_outcome_def)

lemma sendBatch_outcome:
  "\<exists>out s'. sendBatch svc c payload w
       = (batchResults c out,
          \<lparr> provider = s', calls = calls w @ [chunkCall svc payload c out] \<rparr>)
     \<and> produced svc payload c out"
proof -
  define msgs where "msgs = map (\<lambda>tok. buildMessage tok payload) c"
  define r where "r = sendEach (messaging svc) msgs (dryRun svc) (provider w)"
  have "sendBatch svc c payload w
       = (batchResults c (fst r),
          \<lparr> provider = snd r, calls = calls w @ [chunkCall svc payload c (fst r)] \<rparr>)"
    by (cases "fst r")
       (simp_all add: sendBatch_def invoke_sendEach_def Let_def batchResults_def
          chunkCall_def r_def msgs_def)
  moreover have "produced svc payload c (fst r)"
    unfolding produced_def r_def msgs_def by blast
  ultimately show ?thesis by blast
qed

lemma dispatch_chunks_outcomes:
  "\<exists>outs. length outs = length cs
     \<and> fst (dispatch_chunks svc payload cs w) = map2 batchResults cs outs
     \<and> calls (snd (dispatch_chunks svc payload cs w))
         = calls w @ map2 (chunkCall svc payload) cs outs
     \<and> list_all2 (produced svc payload) cs outs"
proof (induction cs arbitrary: w)
  case Nil
  show ?case by simp
next
  case (Cons c cs)
  obtain out s' where b: "sendBatch svc c payload w
       = (batchResults c out,
          \<lparr> provider = s', calls = calls w @ [chunkCall svc payload c out] \<rparr>)"
    and al: "produced svc payload c out"
    using sendBatch_outcome[of svc c payload w] by blast
  define w1 where "w1 = \<lparr> provider = s', calls = calls w @ [chunkCall svc payload c out] \<rparr>"
  obtain outs where o: "length outs = length cs"
    "fst (dispatch_chunks svc payload cs w1) = map2 batchResults cs outs"
    "calls (snd (dispatch_chunks svc payload cs w1))
         = calls w1 @ map2 (chunkCall svc payload) cs outs"
    "list_all2 (produced svc payload) cs outs"
    using Cons.IH[of w1] by blast
  have "length (out # outs) = length (c # cs)" using o(1) by simp
  moreover have "fst (dispatch_chunks svc payload (c # cs) w)
      = map2 batchResults (c # cs) (out # outs)"
    using b o(2) by (simp add: Let_def w1_def)
  moreover have "calls (snd (dispatch_chunks svc payload (c # cs) w))
      = calls w @ map2 (chunkCall svc payload) (c # cs) (out # outs)"
    using b o(3) by (simp add: Let_def w1_def)
  moreover have "list_all2 (produced svc payload) (c # cs) (out # outs)"
    using al o(4) by simp
  ultimately show ?case by blast
qed

lemma sendLoop_chunks:
  "sendLoop svc tokens payload i res w
     = (res @ concat (fst (dispatch_chunks svc payload
                             (consecutive_chunks batchSize (drop i tokens)) w)),
        snd (dispatch_chunks svc payload (consecutive_chunks batchSize (drop i tokens)) w))"
proof (induction svc tokens payload i res w rule: sendLoop.induct)
  case (1 svc tokens payload i res w)
  show ?case
  proof (cases "i < length tokens")
    case True
    then have ne: "drop i tokens \<noteq> []" by simp
    have ch: "consecutive_chunks batchSize (drop i tokens)
        = slice tokens i (i + batchSize)
          # consecutive_chunks batchSize (drop (i + batchSize) tokens)"
      using chunks_step[OF batchSize_pos ne] by (simp add: slice_def add.commute)
    show ?thesis
      using True 1[OF True refl refl]
      by (subst sendLoop.simps) (simp add: ch Let_def)
  next
    case False
    then show ?thesis
      by (subst sendLoop.simps) (simp add: chunks_Nil)
  qed
qed

lemma sendMany_outcomes:
  "\<exists>outs. length outs = length (consecutive_chunks batchSize L)
     \<and> results (fst (sendToMultipleDevices svc L payload w))
         = concat (map2 batchResults (consecutive_chunks batchSize L) outs)
     \<and> calls (snd (sendToMultipleDevices svc L payload w))
         = calls w @ map2 (chunkCall svc payload) (consecutive_chunks batchSize L) outs
     \<and> list_all2 (produced svc payload) (consecutive_chunks batchSize L) outs"
proof (cases "L = []")
  case True
  then show ?thesis
    by (simp add: sendToMultipleDevices_def chunks_Nil)
next
  case False
  then have "results (fst (sendToMultipleDevices svc L payload w))
      = concat (fst (dispatch_chunks svc payload (consecutive_chunks batchSize L) w))"
    and "snd (sendToMultipleDevices svc L payload w)
      = snd (dispatch_chunks svc payload (consecutive_chunks batchSize L) w)"
    by (simp_all add: sendToMultipleDevices_def Let_def sendLoop_chunks)
  then show ?thesis
    using dispatch_chunks_outcomes[of "consecutive_chunks batchSize L" svc payload w]
    by auto
qed

lemma produced_aligned:
  "sendEach_aligned (messaging svc) \<Longrightarrow> produced svc payload c out \<Longrightarrow> aligned_outcome c out"
  unfolding sendEach_aligned_def produced_def
  by (metis aligned_outcome_map)

lemma produced_wellformed:
  "sendEach_wellformed (messaging svc) \<Longrightarrow> produced svc payload c out \<Longrightarrow> wellformed_outcome out"
  unfolding sendEach_wellformed_def produced_def by blast

lemma batchResults_length:
  "aligned_outcome c out \<Longrightarrow> length (batchResults c out) = length c"
  by (cases out) (simp_all add: batchResults_def aligned_outcome_def)

lemma batchResults_nth:
  assumes "aligned_outcome c out" and "j < length c"
  shows "batchResults c out ! j
     = (case out of
          Inl err \<Rightarrow> failed (parseError err (Some (c ! j)))
        | Inr responses \<Rightarrow>
            (let resp = responses ! j
             in if resp_success resp then succeeded (resp_messageId resp)
                else failed (parseError (resp_error resp) (Some (c ! j)))))"
  using assms
  by (cases out)
     (simp_all add: batchResults_def aligned_outcome_def fromResponse_def at_index_def
        nth_enumerate_eq Let_def)

lemma results_shape:
  "list_all2 aligned_outcome cs outs \<Longrightarrow>
     list_all2 (\<lambda>y c. length y = length c) (map2 batchResults cs outs) cs"
  by (induction cs outs rule: list_all2_induct) (simp_all add: batchResults_length)

lemma same_shape_length_concat:
  "list_all2 (\<lambda>y c. length y = length c) yss cs \<Longrightarrow> length (concat yss) = length (concat cs)"
  by (induction yss cs rule: list_all2_induct) simp_all

lemma same_shape_refl: "list_all2 (\<lambda>y c. length y = length c) cs cs"
  by (simp add: list_all2_same)

text \<open>The positional reading of a run over an aligned collaborator.\<close>

lemma sendMany_positions:
  assumes al: "sendEach_aligned (messaging svc)"
  shows "\<exists>outs. length outs = length (consecutive_chunks batchSize L)
     \<and> calls (snd (sendToMultipleDevices svc L payload w))
         = calls w @ map2 (chunkCall svc payload) (consecutive_chunks batchSize L) outs
     \<and> results (fst (sendToMultipleDevices svc L payload w))
         = concat (map2 batchResults (consecutive_chunks batchSize L) outs)
     \<and> length (results (fst (sendToMultipleDevices svc L payload w))) = length L
     \<and> (\<forall>i<length L. i div batchSize < length outs
           \<and> consecutive_chunks batchSize L ! (i div batchSize) ! (i mod batchSize) = L ! i
           \<and> results (fst (sendToMultipleDevices svc L payload w)) ! i
                = positionResult L outs i)"
proof -
  let ?cs = "consecutive_chunks batchSize L"
  let ?r = "sendToMultipleDevices svc L payload w"
  obtain outs where len: "length outs = length ?cs"
    and res: "results (fst ?r) = concat (map2 batchResults ?cs outs)"
    and log: "calls (snd ?r) = calls w @ map2 (chunkCall svc payload) ?cs outs"
    and prod: "list_all2 (produced svc payload) ?cs outs"
    using sendMany_outcomes[of L svc payload w] by blast
  from prod al have ali: "list_all2 aligned_outcome ?cs outs"
    by (auto intro: list_all2_mono produced_aligned)
  then have shape: "list_all2 (\<lambda>y c. length y = length c) (map2 batchResults ?cs outs) ?cs"
    by (rule results_shape)
  have total: "length (results (fst ?r)) = length L"
    using same_shape_length_concat[OF shape] res by (simp add: concat_chunks batchSize_pos)
  have pos: "i div batchSize < length outs
           \<and> ?cs ! (i div batchSize) ! (i mod batchSize) = L ! i
           \<and> results (fst ?r) ! i = positionResult L outs i" if i: "i < length L" for i
  proof -
    let ?k = "i div batchSize" and ?j = "i mod batchSize"
    from concat_nth_shape[OF batchSize_pos same_shape_refl i]
    have k: "?k < length ?cs" and j: "?j < length (?cs ! ?k)" and tok: "?cs ! ?k ! ?j = L ! i"
      by (simp_all add: concat_chunks batchSize_pos)
    from concat_nth_shape[OF batchSize_pos shape i] res
    have "results (fst ?r) ! i = map2 batchResults ?cs outs ! ?k ! ?j"
      by simp
    also have "\<dots> = batchResults (?cs ! ?k) (outs ! ?k) ! ?j"
      using k len by simp
    also have "\<dots> = positionResult L outs i"
      using batchResults_nth[OF list_all2_nthD[OF ali k] j, unfolded tok]
      by (simp add: positionResult_def)
    finally show ?thesis using k len tok by simp
  qed
  from len log res total pos show ?thesis by blast
qed

section \<open>The test double keeps the contract\<close>

lemma flaky_aligned: "sendEach_aligned (messaging flaky_service)"
  by (simp add: sendEach_aligned_def aligned_outcome_def flaky_service_def new_FCMService_def
      flaky_def)

lemma flaky_wellformed: "sendEach_wellformed (messaging flaky_service)"
  by (simp add: sendEach_wellformed_def wellformed_outcome_def flaky_service_def
      new_FCMService_def flaky_def delivered_def list_all_iff)

section \<open>Single results\<close>

lemma positionResult_token:
  "error (positionResult L outs i) = Some e \<Longrightarrow> token e = spread_if (Some (L ! i))"
  by (auto simp: positionResult_def failed_def succeeded_def parseError_def Let_def
      split: sum.splits if_splits)

lemma batchResults_exactly_one:
  assumes "wellformed_outcome out" and "r \<in> set (batchResults c out)"
  shows "exactly_one r"
proof (cases out)
  case (Inl err)
  with assms(2) show ?thesis
    by (auto simp: batchResults_def exactly_one_def failed_def)
next
  case (Inr responses)
  with assms(2) obtain i where "i < length responses"
    and "r = fromResponse c (i, responses ! i)"
    by (auto simp: batchResults_def in_set_enumerate_eq)
  moreover from Inr assms(1) have "\<forall>x\<in>set responses. resp_success x \<longrightarrow> resp_messageId x \<noteq> None"
    by (simp add: wellformed_outcome_def list_all_iff)
  ultimately show ?thesis
    by (auto simp: fromResponse_def exactly_one_def failed_def succeeded_def)
qed

section \<open>Formatter: an empty order number\<close>

text \<open>
  Claim C10. When \<^verbatim>\<open>orderNumber\<close> is the empty string, \<^verbatim>\<open>formatOrderNotification\<close>
  treats it as absent: the payload is the one built with no order number at all, the body
  names the order as \<^verbatim>\<open>#\<close> followed by the order id, and the data map holds the keys
  \<^verbatim>\<open>type\<close> and \<^verbatim>\<open>orderId\<close> only, with no \<^verbatim>\<open>orderNumber\<close> key.
\<close>

theorem formatOrderNotification_empty_orderNumber:
  "formatOrderNotification \<lparr> on_type = t, orderId = oid, orderNumber = Some [] \<rparr>
     = formatOrderNotification \<lparr> on_type = t, orderId = oid, orderNumber = None \<rparr>
   \<and> body (formatOrderNotification \<lparr> on_type = t, orderId = oid, orderNumber = Some [] \<rparr>)
     = ''Your order #'' @ oid @
         (case t of OrderPlaced \<Rightarrow> '' has been confirmed!''
                  | OrderDelivered \<Rightarrow> '' has been delivered!''
                  | OrderCanceled \<Rightarrow> '' has been canceled.'')
   \<and> data (formatOrderNotification \<lparr> on_type = t, orderId = oid, orderNumber = Some [] \<rparr>)
     = Some [(''type'', type_string t), (''orderId'', oid)]
   \<and> ''orderNumber'' \<notin> fst ` set (the (data (formatOrderNotification
         \<lparr> on_type = t, orderId = oid, orderNumber = Some [] \<rparr>)))"
  by (cases t) (simp_all add: formatOrderNotification_def spread_if_def)

section \<open>Error classifier\<close>




section \<open>Message builders: badge and click action\<close>

text \<open>
  Claim C5, as stated: the message built for a topic omits the badge and the click action.
  It does not: for a payload with badge 3 and click action \<^verbatim>\<open>/orders/1\<close>, the topic
  message carries the badge in \<^verbatim>\<open>apns.payload.aps.badge\<close> and the click action in
  \<^verbatim>\<open>android.notification.clickAction\<close>.
\<close>

theorem buildTopicMessage_omits_counterexample:
  "map_option (aps_badge \<circ> apns_aps) (m_apns (buildTopicMessage ''news''
      \<lparr> title = ''t'', body = ''b'', data = None, imageUrl = None, sound = None,
        badge = Some 3, clickAction = Some ''/orders/1'', priority = None \<rparr>)) = Some (Some 3)
   \<and> map_option (an_clickAction \<circ> a_notification) (m_android (buildTopicMessage ''news''
      \<lparr> title = ''t'', body = ''b'', data = None, imageUrl = None, sound = None,
        badge = Some 3, clickAction = Some ''/orders/1'', priority = None \<rparr>))
      = Some (Some ''/orders/1'')"
  by (simp add: buildTopicMessage_def)

text \<open>
  Claim C5, amended. For every topic and payload the topic message forwards the badge
  and the click action exactly as the single-device builder does: its Android
  configuration and its \<^verbatim>\<open>aps\<close> dictionary equal those of the device message. The
  topic message is the device message with the topic as its target and without the APNs
  \<^verbatim>\<open>fcmOptions\<close> (the duplicated image URL).
\<close>

theorem buildTopicMessage_forwards_badge_and_clickAction:
  "m_android (buildTopicMessage topic payload) = m_android (buildMessage tok payload)
   \<and> map_option apns_aps (m_apns (buildTopicMessage topic payload))
       = map_option apns_aps (m_apns (buildMessage tok payload))
   \<and> map_option (aps_badge \<circ> apns_aps) (m_apns (buildTopicMessage topic payload))
       = Some (badge payload)
   \<and> map_option (an_clickAction \<circ> a_notification) (m_android (buildTopicMessage topic payload))
       = Some (clickAction payload)
   \<and> buildTopicMessage topic payload
       = (buildMessage tok payload)
           \<lparr> m_target := Topic topic,
             m_apns := map_option (\<lambda>a. a\<lparr> apns_fcmOptions := None \<rparr>)
                         (m_apns (buildMessage tok payload)) \<rparr>"
  by (simp add: buildTopicMessage_def buildMessage_def)

section \<open>Token validation\<close>

text \<open>
  Claim C6. \<^verbatim>\<open>validateToken\<close> returns false exactly when the synthetic send is
  rejected with an error whose code is \<^verbatim>\<open>messaging/invalid-registration-token\<close> or
  \<^verbatim>\<open>messaging/registration-token-not-registered\<close>; on success and on any other error
  it returns true. It makes one call to the collaborator, the synthetic send, with the
  dry-run argument true whatever the service's own \<^verbatim>\<open>dryRun\<close> flag is.
\<close>

theorem validateToken_false_iff_invalid_code:
  "(\<not> fst (validateToken svc tok w))
     = (\<exists>err. fst (send (messaging svc) (validationMessage tok) True (provider w)) = Inl err
          \<and> error_code err \<in> {JString ''messaging/invalid-registration-token'',
                               JString ''messaging/registration-token-not-registered''})
   \<and> calls (snd (validateToken svc tok w))
     = calls w @ [SendCall (validationMessage tok) True
                    (fst (send (messaging svc) (validationMessage tok) True (provider w)))]"
  by (cases "fst (send (messaging svc) (validationMessage tok) True (provider w))")
     (simp_all add: validateToken_def invoke_send_def Let_def invalidTokenCodes_def)

section \<open>Sending to many devices\<close>

text \<open>
  Claim C4. For the empty token list \<^verbatim>\<open>sendToMultipleDevices\<close> returns zero counts and
  no results, and leaves the world as it was: the provider state and the log of
  collaborator calls are unchanged, so neither \<^verbatim>\<open>send\<close> nor \<^verbatim>\<open>sendEach\<close> was called.
\<close>

theorem sendToMultipleDevices_empty:
  "sendToMultipleDevices svc [] payload w
     = (\<lparr> successCount = 0, failureCount = 0, results = [] \<rparr>, w)"
  by (simp add: sendToMultipleDevices_def)

text \<open>
  Claim C1. With a collaborator whose \<^verbatim>\<open>sendEach\<close> gives one response per message,
  for every token list \<open>L\<close> and payload the results of \<^verbatim>\<open>sendToMultipleDevices\<close> have
  exactly as many elements as \<open>L\<close>, the success count and the failure count add up to
  that number, and the success count is the number of results with \<^verbatim>\<open>success\<close> true.
\<close>

theorem sendToMultipleDevices_result_count:
  assumes "sendEach_aligned (messaging svc)"
  shows "length (results (fst (sendToMultipleDevices svc L payload w))) = length L
     \<and> successCount (fst (sendToMultipleDevices svc L payload w))
         + failureCount (fst (sendToMultipleDevices svc L payload w)) = int (length L)
     \<and> successCount (fst (sendToMultipleDevices svc L payload w))
         = int (length (filter success (results (fst (sendToMultipleDevices svc L payload w)))))"
proof -
  from sendMany_positions[OF assms, of L payload w]
  have len: "length (results (fst (sendToMultipleDevices svc L payload w))) = length L"
    by blast
  have "successCount (fst (sendToMultipleDevices svc L payload w))
         + failureCount (fst (sendToMultipleDevices svc L payload w))
       = int (length (results (fst (sendToMultipleDevices svc L payload w))))"
    by (simp add: sendToMultipleDevices_def Let_def)
  moreover have "successCount (fst (sendToMultipleDevices svc L payload w))
         = int (length (filter success (results (fst (sendToMultipleDevices svc L payload w)))))"
    by (simp add: sendToMultipleDevices_def Let_def)
  ultimately show ?thesis using len by simp
qed

text \<open>An instance: 501 tokens sent through the test double.\<close>

theorem sendToMultipleDevices_result_count_witness:
  "sendEach_aligned (messaging flaky_service)
   \<and> length (results (fst (sendToMultipleDevices flaky_service (replicate 501 ''t'')
        example_payload fresh))) = 501
   \<and> successCount (fst (sendToMultipleDevices flaky_service (replicate 501 ''t'')
        example_payload fresh))
      + failureCount (fst (sendToMultipleDevices flaky_service (replicate 501 ''t'')
        example_payload fresh)) = 501"
  using sendToMultipleDevices_result_count
      [OF flaky_aligned, of "replicate 501 ''t''" example_payload fresh]
    flaky_aligned
  by simp

text \<open>
  Claim C2. With a collaborator whose \<^verbatim>\<open>sendEach\<close> gives one response per message,
  \<^verbatim>\<open>sendToMultipleDevices\<close> cuts the token list \<open>L\<close> into \<open>\<lceil>length L / 500\<rceil>\<close>
  consecutive chunks of at most 500 tokens, which concatenate to \<open>L\<close>. The calls it adds
  to the log are exactly one \<^verbatim>\<open>sendEach\<close> call per chunk, in order, each with the
  messages built for that chunk's tokens. The results are the concatenation of the
  per-chunk results, and the result at position \<open>i\<close> is made from the token \<open>L ! i\<close>
  and the response at that token's place in its chunk's call. This holds for every
  \<open>L\<close>, so in particular for every \<open>L\<close> of more than 500 elements.
\<close>

theorem sendToMultipleDevices_chunks_in_order:
  assumes "sendEach_aligned (messaging svc)"
  shows "\<exists>outs. length outs = (length L + 499) div 500
     \<and> length (consecutive_chunks 500 L) = (length L + 499) div 500
     \<and> concat (consecutive_chunks 500 L) = L
     \<and> (\<forall>c \<in> set (consecutive_chunks 500 L). length c \<le> 500)
     \<and> calls (snd (sendToMultipleDevices svc L payload w))
         = calls w @ map2 (chunkCall svc payload) (consecutive_chunks 500 L) outs
     \<and> results (fst (sendToMultipleDevices svc L payload w))
         = concat (map2 batchResults (consecutive_chunks 500 L) outs)
     \<and> (\<forall>i<length L.
           consecutive_chunks 500 L ! (i div 500) ! (i mod 500) = L ! i
           \<and> results (fst (sendToMultipleDevices svc L payload w)) ! i
                = positionResult L outs i)"
proof -
  have n: "length (consecutive_chunks 500 L) = (length L + 499) div 500"
    using length_chunks[of 500 L] by simp
  have "concat (consecutive_chunks 500 L) = L"
    by (simp add: concat_chunks)
  moreover have "\<forall>c \<in> set (consecutive_chunks 500 L). length c \<le> 500"
    using chunk_length_le by blast
  ultimately show ?thesis
    using sendMany_positions[OF assms, of L payload w, unfolded batchSize_def] n
    by auto
qed

text \<open>An instance: 501 tokens make two calls to the collaborator.\<close>

theorem sendToMultipleDevices_chunks_in_order_witness:
  "sendEach_aligned (messaging flaky_service)
   \<and> length (calls (snd (sendToMultipleDevices flaky_service (replicate 501 ''t'')
        example_payload fresh))) = 2"
proof -
  from sendToMultipleDevices_chunks_in_order
      [OF flaky_aligned, of "replicate 501 ''t''" example_payload fresh]
  obtain outs where "length outs = (length (replicate 501 ''t'') + 499) div 500"
    and "length (consecutive_chunks 500 (replicate 501 ''t''))
           = (length (replicate 501 ''t'') + 499) div 500"
    and "calls (snd (sendToMultipleDevices flaky_service (replicate 501 ''t'')
            example_payload fresh))
         = calls fresh @ map2 (chunkCall flaky_service example_payload)
                           (consecutive_chunks 500 (replicate 501 ''t'')) outs"
    by blast
  then show ?thesis using flaky_aligned by (simp add: fresh_def)
qed

text \<open>
  Claim C3. With a collaborator whose \<^verbatim>\<open>sendEach\<close> gives one response per message:
  when the call for a chunk is rejected as a whole with an error, every position of that
  chunk holds a failed result made from that error and the position's own token, all with
  the same classified code; the results are as many as the tokens, so no token is
  dropped; and a position whose chunk's call resolved holds the result made from its own
  response in that call, whatever happened to the other chunks.
\<close>

theorem sendToMultipleDevices_chunk_failure_isolated:
  assumes "sendEach_aligned (messaging svc)"
  shows "\<exists>outs. length outs = length (consecutive_chunks 500 L)
     \<and> calls (snd (sendToMultipleDevices svc L payload w))
         = calls w @ map2 (chunkCall svc payload) (consecutive_chunks 500 L) outs
     \<and> length (results (fst (sendToMultipleDevices svc L payload w))) = length L
     \<and> (\<forall>i<length L. \<forall>err. outs ! (i div 500) = Inl err \<longrightarrow>
           results (fst (sendToMultipleDevices svc L payload w)) ! i
             = failed (parseError err (Some (L ! i)))
           \<and> \<not> success (results (fst (sendToMultipleDevices svc L payload w)) ! i)
           \<and> map_option code (error (results (fst (sendToMultipleDevices svc L payload w)) ! i))
               = Some (code (parseError err None)))
     \<and> (\<forall>i<length L. \<forall>responses. outs ! (i div 500) = Inr responses \<longrightarrow>
           results (fst (sendToMultipleDevices svc L payload w)) ! i
             = fromResponse L (i, responses ! (i mod 500)))"
proof -
  let ?r = "sendToMultipleDevices svc L payload w"
  from sendMany_positions[OF assms, of L payload w]
  obtain outs where len: "length outs = length (consecutive_chunks batchSize L)"
    and log: "calls (snd ?r)
         = calls w @ map2 (chunkCall svc payload) (consecutive_chunks batchSize L) outs"
    and total: "length (results (fst ?r)) = length L"
    and pos: "\<forall>i<length L. results (fst ?r) ! i = positionResult L outs i"
    by blast
  have a: "results (fst ?r) ! i = failed (parseError err (Some (L ! i)))
           \<and> \<not> success (results (fst ?r) ! i)
           \<and> map_option code (error (results (fst ?r) ! i)) = Some (code (parseError err None))"
    if "i < length L" and "outs ! (i div 500) = Inl err" for i err
    using that pos
    by (simp add: positionResult_def batchSize_def failed_def parseError_def)
  have b: "results (fst ?r) ! i = fromResponse L (i, responses ! (i mod 500))"
    if "i < length L" and "outs ! (i div 500) = Inr responses" for i responses
    using that pos
    by (simp add: positionResult_def batchSize_def fromResponse_def at_index_def Let_def)
  from len log total a b show ?thesis
    unfolding batchSize_def by blast
qed

text \<open>
  An instance: of 501 tokens the first chunk is rejected as a whole and the second is
  delivered; position 0 fails with the transport error, position 500 succeeds.
\<close>

theorem sendToMultipleDevices_chunk_failure_isolated_witness:
  "sendEach_aligned (messaging flaky_service)
   \<and> results (fst (sendToMultipleDevices flaky_service (replicate 500 ''a'' @ [''b''])
        example_payload fresh)) ! 0
      = failed (parseError transport_error (Some ''a''))
   \<and> results (fst (sendToMultipleDevices flaky_service (replicate 500 ''a'' @ [''b''])
        example_payload fresh)) ! 500
      = succeeded (Some ''msg-1'')"
  using sendToMultipleDevices_chunk_failure_isolated
      [OF flaky_aligned, of "replicate 500 ''a'' @ [''b'']" example_payload fresh]
    flaky_aligned
  by (simp add: sendToMultipleDevices_def sendLoop_chunks chunks_step chunks_Nil batchSize_def
      sendBatch_def invoke_sendEach_def Let_def flaky_service_def new_FCMService_def flaky_def
      fresh_def fromResponse_def delivered_def nth_append)

section \<open>The token field of an error\<close>

text \<open>
  Claim C8, as stated: every per-device failure attaches the originating token to the
  error. It does not when the token is the empty string: a failed \<^verbatim>\<open>sendToDevice\<close>
  for the token \<^verbatim>\<open>''\<close> returns an error with no token field.
\<close>

theorem sendToDevice_empty_token_counterexample:
  "\<not> success (fst (sendToDevice flaky_service [] example_payload fresh))
   \<and> map_option token (error (fst (sendToDevice flaky_service [] example_payload fresh)))
       = Some None"
  by (simp add: sendToDevice_def invoke_send_def Let_def flaky_service_def new_FCMService_def
      flaky_def fresh_def failed_def parseError_def spread_if_def)

text \<open>
  Claim C8, amended. The error of a failed \<^verbatim>\<open>sendToTopic\<close> has no token field. The
  error of a failed \<^verbatim>\<open>sendToDevice\<close>, and (with a collaborator whose \<^verbatim>\<open>sendEach\<close>
  gives one response per message) the error of a failed result at position \<open>i\<close> of
  \<^verbatim>\<open>sendToMultipleDevices\<close>, carries the originating token when that token is a
  non-empty string, and has no token field when the token is the empty string. The
  statements about \<^verbatim>\<open>sendToTopic\<close> and \<^verbatim>\<open>sendToDevice\<close> hold for every collaborator.
\<close>

theorem error_token_only_for_devices:
  "(\<forall>e. error (fst (sendToTopic svc topic payload w)) = Some e \<longrightarrow> token e = None)
   \<and> (\<forall>e. error (fst (sendToDevice svc tok payload w)) = Some e
         \<longrightarrow> token e = (if tok = [] then None else Some tok))
   \<and> (sendEach_aligned (messaging svc) \<longrightarrow>
        (\<forall>i<length L. \<forall>e.
           error (results (fst (sendToMultipleDevices svc L payload w)) ! i) = Some e
           \<longrightarrow> token e = (if L ! i = [] then None else Some (L ! i))))"
proof -
  have topic: "\<forall>e. error (fst (sendToTopic svc topic payload w)) = Some e \<longrightarrow> token e = None"
    by (auto simp: sendToTopic_def failed_def succeeded_def parseError_def spread_if_def
          split: prod.splits sum.splits)
  have device: "\<forall>e. error (fst (sendToDevice svc tok payload w)) = Some e
           \<longrightarrow> token e = (if tok = [] then None else Some tok)"
    by (auto simp: sendToDevice_def failed_def succeeded_def parseError_def spread_if_def
          split: prod.splits sum.splits)
  have many: "\<forall>i<length L. \<forall>e.
           error (results (fst (sendToMultipleDevices svc L payload w)) ! i) = Some e
           \<longrightarrow> token e = (if L ! i = [] then None else Some (L ! i))"
    if al: "sendEach_aligned (messaging svc)"
  proof -
    from sendMany_positions[OF al, of L payload w]
    obtain outs where
      pos: "\<forall>i<length L. results (fst (sendToMultipleDevices svc L payload w)) ! i
              = positionResult L outs i"
      by blast
    then show ?thesis
      using positionResult_token[of L outs] by (auto simp: spread_if_def)
  qed
  from topic device many show ?thesis by blast
qed

text \<open>
  An instance: the rejected first call, made to a topic, to the device \<^verbatim>\<open>a\<close>, and to
  the devices \<^verbatim>\<open>a\<close> and \<^verbatim>\<open>''\<close>.
\<close>

theorem error_token_only_for_devices_witness:
  "sendEach_aligned (messaging flaky_service)
   \<and> map_option token (error (fst (sendToTopic flaky_service ''news'' example_payload fresh)))
       = Some None
   \<and> map_option token (error (fst (sendToDevice flaky_service ''a'' example_payload fresh)))
       = Some (Some ''a'')
   \<and> map_option token (error (results (fst (sendToMultipleDevices flaky_service [''a'', []]
        example_payload fresh)) ! 0)) = Some (Some ''a'')
   \<and> map_option token (error (results (fst (sendToMultipleDevices flaky_service [''a'', []]
        example_payload fresh)) ! 1)) = Some None"
  using error_token_only_for_devices
      [of flaky_service "''news''" example_payload fresh "''a''" "[''a'', []]"]
    flaky_aligned
  by (simp add: sendToTopic_def sendToDevice_def invoke_send_def
      sendToMultipleDevices_def sendLoop_chunks chunks_step chunks_Nil batchSize_def
      sendBatch_def invoke_sendEach_def Let_def flaky_service_def new_FCMService_def flaky_def
      fresh_def failed_def parseError_def spread_if_def)

section \<open>The invariant of a send result\<close>

text \<open>
  Claim C9. Every result of \<^verbatim>\<open>sendToDevice\<close> and of \<^verbatim>\<open>sendToTopic\<close>, and (with a
  collaborator whose successful \<^verbatim>\<open>sendEach\<close> responses carry a message id) every
  result of \<^verbatim>\<open>sendToMultipleDevices\<close>, has a message id exactly when \<^verbatim>\<open>success\<close> is
  true and an error exactly when \<^verbatim>\<open>success\<close> is false. The statements about
  \<^verbatim>\<open>sendToDevice\<close> and \<^verbatim>\<open>sendToTopic\<close> hold for every collaborator.
\<close>

theorem send_results_exactly_one:
  "exactly_one (fst (sendToDevice svc tok payload w))
   \<and> exactly_one (fst (sendToTopic svc topic payload w))
   \<and> (sendEach_wellformed (messaging svc) \<longrightarrow>
        (\<forall>r \<in> set (results (fst (sendToMultipleDevices svc L payload w))). exactly_one r))"
proof -
  have device: "exactly_one (fst (sendToDevice svc tok payload w))"
    by (auto simp: sendToDevice_def exactly_one_def failed_def succeeded_def
          split: prod.splits sum.splits)
  have topic: "exactly_one (fst (sendToTopic svc topic payload w))"
    by (auto simp: sendToTopic_def exactly_one_def failed_def succeeded_def
          split: prod.splits sum.splits)
  from sendMany_outcomes[of L svc payload w]
  obtain outs where len: "length outs = length (consecutive_chunks batchSize L)"
    and res: "results (fst (sendToMultipleDevices svc L payload w))
         = concat (map2 batchResults (consecutive_chunks batchSize L) outs)"
    and prod: "list_all2 (produced svc payload) (consecutive_chunks batchSize L) outs"
    by blast
  have many: "exactly_one r"
    if wf: "sendEach_wellformed (messaging svc)"
      and "r \<in> set (results (fst (sendToMultipleDevices svc L payload w)))" for r
  proof -
    from that(2) res obtain c out
      where in_zip: "(c, out) \<in> set (zip (consecutive_chunks batchSize L) outs)"
      and r: "r \<in> set (batchResults c out)"
      by auto
    from in_zip prod have "produced svc payload c out"
      by (auto simp: list_all2_iff)
    with wf have "wellformed_outcome out"
      by (rule produced_wellformed)
    then show ?thesis using r by (rule batchResults_exactly_one)
  qed
  from device topic many show ?thesis by blast
qed

text \<open>An instance: a rejected single send and a rejected batch of two.\<close>

theorem send_results_exactly_one_witness:
  "sendEach_wellformed (messaging flaky_service)
   \<and> exactly_one (fst (sendToDevice flaky_service ''a'' example_payload fresh))
   \<and> exactly_one (results (fst (sendToMultipleDevices flaky_service [''a'', ''b'']
        example_payload fresh)) ! 1)"
  using send_results_exactly_one
      [of flaky_service "''a''" example_payload fresh "''news''" "[''a'', ''b'']"]
    flaky_wellformed
  by (simp add: sendToDevice_def invoke_send_def exactly_one_def
      sendToMultipleDevices_def sendLoop_chunks chunks_step chunks_Nil batchSize_def
      sendBatch_def invoke_sendEach_def Let_def flaky_service_def new_FCMService_def flaky_def
      fresh_def failed_def)

end
